theory Spec2Isabelle
  imports Main "HOL-Library.Word"
begin

section \<open>JavaScript values used by \<open>fileinterface.ts\<close>\<close>

text \<open>
  A JavaScript string is a sequence of UTF-16 code units, a \<open>Buffer\<close> a sequence of
  bytes. \<open>js\<close> writes an ASCII literal as a JavaScript string.
\<close>

type_synonym jsstring = "16 word list"
type_synonym Buffer = "8 word list"

definition js :: "string \<Rightarrow> jsstring" where
  "js s = map of_char s"

text \<open>The replacement character U+FFFD and the question mark, as \<open>list\<close> looks for them.\<close>

definition REPLACEMENT :: "16 word" where
  "REPLACEMENT = 0xFFFD"

definition QUESTION :: "16 word" where
  "QUESTION = 0x3F"

definition SLASH :: "16 word" where
  "SLASH = 0x2F"

text \<open>
  \<open>enum FtpErrorCode\<close> with its numeric values.
\<close>

datatype FtpErrorCode =
    REQUEST_MKDIR
  | FILE_NOT_FOUND
  | REUQEST_RECONNECT_AND_RETRY
  | REUQEST_RECONNECT_AND_RETRY_ONCE
  | CONNECTION_REFUSED
  | AUTH_FAILED

fun code :: "FtpErrorCode \<Rightarrow> int" where
  "code REQUEST_MKDIR = 1"
| "code FILE_NOT_FOUND = 2"
| "code REUQEST_RECONNECT_AND_RETRY = 3"
| "code REUQEST_RECONNECT_AND_RETRY_ONCE = 4"
| "code CONNECTION_REFUSED = 5"
| "code AUTH_FAILED = 6"

text \<open>
  A rejection value. \<open>message\<close> is \<open>err.message\<close> (empty when the value has none),
  \<open>ftpCode\<close> the optional field the global \<open>Error\<close> interface is extended with, and
  \<open>as_string\<close> what \<open>String(err)\<close> yields, which a template literal prints when
  \<open>err.message\<close> is falsy.
\<close>

record jserror =
  message :: jsstring
  ftpCode :: "int option"
  as_string :: jsstring

text \<open>\<open>Error(msg)\<close>: a fresh error object without \<open>ftpCode\<close>.\<close>

definition Error :: "jsstring \<Rightarrow> jserror" where
  "Error msg = \<lparr>message = msg, ftpCode = None,
     as_string = (if msg = [] then js ''Error'' else js ''Error: '' @ msg)\<rparr>"

text \<open>\<open>err.message || err\<close> inside a template literal.\<close>

definition message_or_err :: "jserror \<Rightarrow> jsstring" where
  "message_or_err err = (if message err \<noteq> [] then message err else as_string err)"

text \<open>
  A promise is described by how it settles; \<open>Pending\<close> is a promise that never does.
  A call either throws synchronously or returns a promise.
\<close>

datatype 'a Promise = Resolved 'a | Rejected jserror | Pending

datatype 'a completion = Thrown jserror | Returned "'a Promise"

text \<open>
  \<open>p.then(onFulfilled, onRejected)\<close>: exactly one handler runs, once \<open>p\<close> has settled;
  a handler yields the effects it performs and the settlement of the derived promise
  (\<open>return v\<close> is \<open>Resolved v\<close>, \<open>throw err\<close> is \<open>Rejected err\<close>, returning a promise
  adopts it). A rejection handler does not see what the fulfilment handler throws.
\<close>

definition promise_then ::
  "'a Promise \<Rightarrow> ('a \<Rightarrow> 'e list \<times> 'b Promise) \<Rightarrow> (jserror \<Rightarrow> 'e list \<times> 'b Promise)
     \<Rightarrow> 'e list \<times> 'b Promise" where
  "promise_then p onFulfilled onRejected =
     (case p of
        Resolved v \<Rightarrow> onFulfilled v
      | Rejected err \<Rightarrow> onRejected err
      | Pending \<Rightarrow> ([], Pending))"

text \<open>\<open>resolve(v)\<close> and \<open>reject(err)\<close> of a promise executor: only the first call counts.\<close>

definition resolve :: "'a Promise \<Rightarrow> 'a \<Rightarrow> 'a Promise" where
  "resolve p v = (case p of Pending \<Rightarrow> Resolved v | _ \<Rightarrow> p)"

definition reject :: "'a Promise \<Rightarrow> jserror \<Rightarrow> 'a Promise" where
  "reject p err = (case p of Pending \<Rightarrow> Rejected err | _ \<Rightarrow> p)"

text \<open>
  Modelled from the spec: \<open>promiseErrorWrap\<close> of \<open>../util/util\<close>, which is not among the
  source files. The spec has every failure that is not swallowed "rethrown unchanged",
  so the wrapper hands the settlement of its argument through.
\<close>

definition promiseErrorWrap :: "'a Promise \<Rightarrow> 'a Promise" where
  "promiseErrorWrap p = p"

section \<open>Configuration, file entries, backend\<close>

text \<open>
  \<open>iconv.encode(str, enc)\<close> and \<open>iconv.decode(buf, enc)\<close> of the library iconv-lite. An
  encoding that iconv recognises is given by its two directions; an encoding name that
  it does not recognise is \<open>None\<close>, and both functions then throw (iconv's message also
  quotes the name, which is not kept here).
\<close>

record encoding =
  encode :: "jsstring \<Rightarrow> Buffer"
  decode :: "Buffer \<Rightarrow> jsstring"

definition not_recognized :: jserror where
  "not_recognized = Error (js ''Encoding not recognized'')"

definition iconv_encode :: "jsstring \<Rightarrow> encoding option \<Rightarrow> jserror + Buffer" where
  "iconv_encode str enc =
     (case enc of None \<Rightarrow> Inl not_recognized | Some codec \<Rightarrow> Inr (encode codec str))"

definition iconv_decode :: "Buffer \<Rightarrow> encoding option \<Rightarrow> jserror + jsstring" where
  "iconv_decode buf enc =
     (case enc of None \<Rightarrow> Inl not_recognized | Some codec \<Rightarrow> Inr (decode codec buf))"

text \<open>
  The encoding \<open>'binary'\<close> (Latin-1): encoding keeps the low byte of every code unit,
  decoding reads every byte as one code unit.
\<close>

definition binary :: encoding where
  "binary = \<lparr>encode = map ucast, decode = map ucast\<rparr>"

text \<open>
  The encoding \<open>'hex'\<close>, which iconv-lite also accepts as an encoding name: encoding
  cuts every code unit to its low byte, reads the bytes as pairs of hexadecimal digits
  and stops at the first pair that is not one; decoding prints every byte as two
  lower-case digits.
\<close>

definition hexval :: "8 word \<Rightarrow> nat option" where
  "hexval c =
     (if 0x30 \<le> c \<and> c \<le> 0x39 then Some (unat c - 0x30)
      else if 0x41 \<le> c \<and> c \<le> 0x46 then Some (unat c - 0x41 + 10)
      else if 0x61 \<le> c \<and> c \<le> 0x66 then Some (unat c - 0x61 + 10)
      else None)"

fun hex_encode :: "jsstring \<Rightarrow> Buffer" where
  "hex_encode (a # b # rest) =
     (case (hexval (ucast a), hexval (ucast b)) of
        (Some x, Some y) \<Rightarrow> of_nat (x * 16 + y) # hex_encode rest
      | _ \<Rightarrow> [])"
| "hex_encode _ = []"

definition hexdigit :: "nat \<Rightarrow> 16 word" where
  "hexdigit n = (if n < 10 then of_nat (0x30 + n) else of_nat (0x61 + (n - 10)))"

definition hex_decode :: "Buffer \<Rightarrow> jsstring" where
  "hex_decode buf = concat (map (\<lambda>b. [hexdigit (unat b div 16), hexdigit (unat b mod 16)]) buf)"

definition hex :: encoding where
  "hex = \<lparr>encode = hex_encode, decode = hex_decode\<rparr>"

text \<open>
  The fields of \<open>ServerConfig\<close> that \<open>FileInterface\<close> reads. \<open>config.name\<close> may be
  undefined (\<open>None\<close>); \<open>fileNameEncoding\<close> is the encoding iconv finds under the configured
  name, \<open>None\<close> when it finds none.
\<close>

record ServerConfig =
  name :: "jsstring option"
  fileNameEncoding :: "encoding option"
  ignoreWrongFileEncoding :: bool

text \<open>
  The fields of \<open>FileInfo\<close> that \<open>FileInterface\<close> reads and writes. The entry's \<open>name\<close>
  is the field \<open>filename\<close> here, \<open>name\<close> being the configuration's.
\<close>

record FileInfo =
  type :: jsstring
  filename :: jsstring
  link :: "jsstring option"

type_synonym File = jsstring

text \<open>What a readable stream emits, in order.\<close>

datatype stream_event = Data Buffer | Close | StreamError jserror

type_synonym ReadableStream = "stream_event list"

text \<open>
  The abstract methods \<open>_mkdir\<close>, \<open>_rmdir\<close>, \<open>_delete\<close>, \<open>_put\<close>, \<open>_write\<close>, \<open>_get\<close>,
  \<open>_list\<close>, \<open>_readlink\<close>, \<open>_rename\<close> of a concrete backend: each returns a promise. A
  primitive that throws instead of returning one is outside this type.
\<close>

record Backend =
  prim_mkdir :: "jsstring \<Rightarrow> bool \<Rightarrow> unit Promise"
  prim_rmdir :: "jsstring \<Rightarrow> bool \<Rightarrow> unit Promise"
  prim_delete :: "jsstring \<Rightarrow> unit Promise"
  prim_put :: "File \<Rightarrow> jsstring \<Rightarrow> unit Promise"
  prim_write :: "Buffer \<Rightarrow> jsstring \<Rightarrow> unit Promise"
  prim_get :: "jsstring \<Rightarrow> ReadableStream Promise"
  prim_list :: "jsstring \<Rightarrow> FileInfo list Promise"
  prim_readlink :: "FileInfo \<Rightarrow> jsstring \<Rightarrow> jsstring Promise"
  prim_rename :: "jsstring \<Rightarrow> jsstring \<Rightarrow> unit Promise"

datatype backend_call =
    Call_mkdir jsstring bool
  | Call_rmdir jsstring bool
  | Call_delete jsstring
  | Call_put File jsstring
  | Call_write Buffer jsstring
  | Call_get jsstring
  | Call_list jsstring
  | Call_readlink FileInfo jsstring
  | Call_rename jsstring jsstring

text \<open>
  The effects of an operation on its collaborators: the status bar, the logger, the
  backend, the local file a download is piped into, and the timer queue.
  \<open>SetTimeout names ms\<close> is \<open>setTimeout(()=>this.oninvalidencoding(names), ms)\<close>: the
  callback is not called, it is handed to the timer queue with its argument.
\<close>

datatype event =
    StateBar_set jsstring
  | StateBar_close
  | Logger_message jsstring
  | Backend_call backend_call
  | Pipe File
  | SetTimeout "jsstring list" nat

text \<open>
  One invocation: \<open>sync\<close> are the effects performed before the call returns, \<open>result\<close>
  is what the caller gets, \<open>async\<close> are the effects of the promise reactions and
  stream listeners, which run after the call has returned.
\<close>

record 'a run =
  sync :: "event list"
  result :: "'a completion"
  async :: "event list"

section \<open>Charset transcoder and reporter\<close>

text \<open>
  \<open>bin2str\<close> and \<open>str2bin\<close> throw what iconv throws: \<open>Inl\<close> is the error thrown, \<open>Inr\<close> the
  string returned.
\<close>

definition bin2str :: "ServerConfig \<Rightarrow> jsstring \<Rightarrow> jserror + jsstring" where
  "bin2str config bin =
     (case iconv_encode bin (Some binary) of
        Inl thrown \<Rightarrow> Inl thrown
      | Inr buf \<Rightarrow> iconv_decode buf (fileNameEncoding config))"

definition str2bin :: "ServerConfig \<Rightarrow> jsstring \<Rightarrow> jserror + jsstring" where
  "str2bin config str =
     (case iconv_encode str (fileNameEncoding config) of
        Inl thrown \<Rightarrow> Inl thrown
      | Inr buf \<Rightarrow> iconv_decode buf (Some binary))"

text \<open>\<open>config.name ? config.name+"> "+command : command\<close>: undefined and "" are falsy.\<close>

definition prefixed :: "ServerConfig \<Rightarrow> jsstring \<Rightarrow> jsstring" where
  "prefixed config command =
     (case name config of
        None \<Rightarrow> command
      | Some n \<Rightarrow> if n = [] then command else n @ js ''> '' @ command)"

definition logWithState :: "ServerConfig \<Rightarrow> jsstring \<Rightarrow> event list" where
  "logWithState config command =
     (let message = prefixed config command
      in [StateBar_set message, Logger_message message])"

definition log :: "ServerConfig \<Rightarrow> jsstring \<Rightarrow> event list" where
  "log config command =
     (let message = prefixed config command
      in [Logger_message message])"

section \<open>Transfer operations\<close>

text \<open>
  Every operation announces first and transcodes its path next; when \<open>str2bin\<close> throws,
  the call throws after the announcement and nothing else happens.

  \<open>_callWithName\<close>. The callback is given with the backend call it makes and the
  promise that call returns.
\<close>

definition callWithName ::
  "ServerConfig \<Rightarrow> jsstring \<Rightarrow> jsstring \<Rightarrow> int \<Rightarrow> 'a
     \<Rightarrow> (jsstring \<Rightarrow> backend_call \<times> 'a Promise) \<Rightarrow> 'a run" where
  "callWithName config nm ftppath ignorecode defVal callback =
     (let announce = logWithState config (nm @ js '' '' @ ftppath)
      in case str2bin config ftppath of
           Inl thrown \<Rightarrow> \<lparr>sync = announce, result = Thrown thrown, async = []\<rparr>
         | Inr binpath \<Rightarrow>
             (let (call, p) = callback binpath;
                  (reaction, q) = promise_then p
                     (\<lambda>v. ([StateBar_close], Resolved v))
                     (\<lambda>err.
                        if ftpCode err = Some ignorecode then ([StateBar_close], Resolved defVal)
                        else (StateBar_close # log config (nm @ js '' fail: '' @ ftppath),
                              Rejected err))
              in \<lparr>sync = announce @ [Backend_call call],
                  result = Returned (promiseErrorWrap q),
                  async = reaction\<rparr>))"

text \<open>\<open>upload\<close>; \<open>errorMessageOverride\<close> is never assigned, so it is always falsy.\<close>

definition upload :: "ServerConfig \<Rightarrow> Backend \<Rightarrow> jsstring \<Rightarrow> File \<Rightarrow> unit run" where
  "upload config be ftppath localpath =
     (let announce = logWithState config (js ''upload '' @ ftppath)
      in case str2bin config ftppath of
           Inl thrown \<Rightarrow> \<lparr>sync = announce, result = Thrown thrown, async = []\<rparr>
         | Inr binpath \<Rightarrow>
             (let (reaction, q) = promise_then (prim_put be localpath binpath)
                     (\<lambda>_. ([StateBar_close], Resolved ()))
                     (\<lambda>err.
                        (StateBar_close #
                           log config (js ''upload fail: '' @ ftppath @ js '', ''
                                         @ message_or_err err),
                         Rejected err))
              in \<lparr>sync = announce @ [Backend_call (Call_put localpath binpath)],
                  result = Returned (promiseErrorWrap q),
                  async = reaction\<rparr>))"

text \<open>
  The listeners \<open>download\<close> registers on the stream with \<open>once\<close>: \<open>c\<close> and \<open>e\<close> say
  whether the \<open>close\<close> and the \<open>error\<close> listener are still registered, \<open>p\<close> is the
  promise they settle. An event without a registered listener runs no code of
  \<open>FileInterface\<close>.
\<close>

fun download_listeners ::
  "bool \<Rightarrow> bool \<Rightarrow> unit Promise \<Rightarrow> ReadableStream \<Rightarrow> event list \<times> unit Promise" where
  "download_listeners c e p [] = ([], p)"
| "download_listeners c e p (Data d # evs) = download_listeners c e p evs"
| "download_listeners c e p (Close # evs) =
     (if c then
        (let (tr, q) = download_listeners False e (resolve p ()) evs
         in (StateBar_close # tr, q))
      else download_listeners c e p evs)"
| "download_listeners c e p (StreamError err # evs) =
     (if e then
        (let (tr, q) = download_listeners c False (reject p err) evs
         in (StateBar_close # tr, q))
      else download_listeners c e p evs)"

definition download :: "ServerConfig \<Rightarrow> Backend \<Rightarrow> File \<Rightarrow> jsstring \<Rightarrow> unit run" where
  "download config be localpath ftppath =
     (let announce = logWithState config (js ''download '' @ ftppath)
      in case str2bin config ftppath of
           Inl thrown \<Rightarrow> \<lparr>sync = announce, result = Thrown thrown, async = []\<rparr>
         | Inr binpath \<Rightarrow>
             (let (reaction, q) = promise_then (prim_get be binpath)
                     (\<lambda>stream.
                        (let (tr, q) = download_listeners True True Pending stream
                         in (Pipe localpath # tr, q)))
                     (\<lambda>err.
                        (StateBar_close # log config (js ''download fail: '' @ ftppath),
                         Rejected err))
              in \<lparr>sync = announce @ [Backend_call (Call_get binpath)],
                  result = Returned (promiseErrorWrap q),
                  async = reaction\<rparr>))"

text \<open>
  The listeners of \<open>view\<close>: as for \<open>download\<close>, with a \<open>data\<close> listener that pushes
  every chunk onto \<open>buffers\<close>.
\<close>

fun view_listeners ::
  "bool \<Rightarrow> bool \<Rightarrow> Buffer list \<Rightarrow> Buffer Promise \<Rightarrow> ReadableStream
     \<Rightarrow> event list \<times> Buffer Promise" where
  "view_listeners c e buffers p [] = ([], p)"
| "view_listeners c e buffers p (Data d # evs) = view_listeners c e (buffers @ [d]) p evs"
| "view_listeners c e buffers p (Close # evs) =
     (if c then
        (let (tr, q) = view_listeners False e buffers (resolve p (concat buffers)) evs
         in (StateBar_close # tr, q))
      else view_listeners c e buffers p evs)"
| "view_listeners c e buffers p (StreamError err # evs) =
     (if e then
        (let (tr, q) = view_listeners c False buffers (reject p err) evs
         in (StateBar_close # tr, q))
      else view_listeners c e buffers p evs)"

definition view :: "ServerConfig \<Rightarrow> Backend \<Rightarrow> jsstring \<Rightarrow> Buffer run" where
  "view config be ftppath =
     (let announce = logWithState config (js ''view '' @ ftppath)
      in case str2bin config ftppath of
           Inl thrown \<Rightarrow> \<lparr>sync = announce, result = Thrown thrown, async = []\<rparr>
         | Inr binpath \<Rightarrow>
             (let (reaction, q) = promise_then (prim_get be binpath)
                     (\<lambda>stream. view_listeners True True [] Pending stream)
                     (\<lambda>err.
                        (StateBar_close # log config (js ''view fail: '' @ ftppath),
                         Rejected err))
              in \<lparr>sync = announce @ [Backend_call (Call_get binpath)],
                  result = Returned (promiseErrorWrap q),
                  async = reaction\<rparr>))"

definition write' :: "ServerConfig \<Rightarrow> Backend \<Rightarrow> jsstring \<Rightarrow> Buffer \<Rightarrow> unit run" where
  "write' config be ftppath content =
     (let announce = logWithState config (js ''write '' @ ftppath)
      in case str2bin config ftppath of
           Inl thrown \<Rightarrow> \<lparr>sync = announce, result = Thrown thrown, async = []\<rparr>
         | Inr binpath \<Rightarrow>
             (let (reaction, q) = promise_then (prim_write be content binpath)
                     (\<lambda>_. ([StateBar_close], Resolved ()))
                     (\<lambda>err.
                        (StateBar_close # log config (js ''write fail: '' @ ftppath),
                         Rejected err))
              in \<lparr>sync = announce @ [Backend_call (Call_write content binpath)],
                  result = Returned (promiseErrorWrap q),
                  async = reaction\<rparr>))"

text \<open>\<open>fn.indexOf(c)\<close> for a one-character needle: the first index, or -1.\<close>

fun indexOf_from :: "jsstring \<Rightarrow> 16 word \<Rightarrow> int \<Rightarrow> int" where
  "indexOf_from [] c i = - 1"
| "indexOf_from (x # xs) c i = (if x = c then i else indexOf_from xs c (i + 1))"

definition indexOf :: "jsstring \<Rightarrow> 16 word \<Rightarrow> int" where
  "indexOf fn c = indexOf_from fn c 0"

text \<open>
  The loop of \<open>list\<close> over the entries the backend returned: every name is replaced by
  its transcoding, and collected in \<open>errfiles\<close> under the two tests of the source. The
  loop ends with \<open>Inl\<close> when \<open>bin2str\<close> throws.
\<close>

fun list_loop ::
  "ServerConfig \<Rightarrow> FileInfo list \<Rightarrow> jsstring list
     \<Rightarrow> jserror + (FileInfo list \<times> jsstring list)" where
  "list_loop config [] errfiles = Inr ([], errfiles)"
| "list_loop config (file # rest) errfiles =
     (case bin2str config (filename file) of
        Inl thrown \<Rightarrow> Inl thrown
      | Inr fn \<Rightarrow>
          (let file' = file\<lparr>filename := fn\<rparr>;
               errfiles' =
                 (if \<not> ignoreWrongFileEncoding config then
                    (if indexOf fn REPLACEMENT \<noteq> - 1 \<or> indexOf fn QUESTION \<noteq> - 1
                     then errfiles @ [fn] else errfiles)
                  else errfiles)
           in case list_loop config rest errfiles' of
                Inl thrown \<Rightarrow> Inl thrown
              | Inr (files', errfiles'') \<Rightarrow> Inr (file' # files', errfiles'')))"

text \<open>
  \<open>list\<close>. What the loop throws is thrown inside the fulfilment handler, after the
  status bar was closed, and rejects the promise without passing the rejection handler.
\<close>

definition list :: "ServerConfig \<Rightarrow> Backend \<Rightarrow> jsstring \<Rightarrow> FileInfo list run" where
  "list config be ftppath0 =
     (let ftppath = (if ftppath0 = [] then js ''.'' else ftppath0);
          announce = logWithState config (js ''list '' @ ftppath)
      in case str2bin config ftppath of
           Inl thrown \<Rightarrow> \<lparr>sync = announce, result = Thrown thrown, async = []\<rparr>
         | Inr binpath \<Rightarrow>
             (let (reaction, q) = promise_then (prim_list be binpath)
                     (\<lambda>entries.
                        (case list_loop config entries [] of
                           Inl thrown \<Rightarrow> ([StateBar_close], Rejected thrown)
                         | Inr (entries', errfiles) \<Rightarrow>
                             (StateBar_close #
                                (if errfiles \<noteq> [] then [SetTimeout errfiles 0] else []),
                              Resolved entries')))
                     (\<lambda>err.
                        (StateBar_close #
                           log config (js ''list fail: '' @ ftppath @ js '', ''
                                         @ message_or_err err),
                         Rejected err))
              in \<lparr>sync = announce @ [Backend_call (Call_list binpath)],
                  result = Returned (promiseErrorWrap q),
                  async = reaction\<rparr>))"

definition rmdir :: "ServerConfig \<Rightarrow> Backend \<Rightarrow> jsstring \<Rightarrow> unit run" where
  "rmdir config be ftppath =
     callWithName config (js ''rmdir'') ftppath (code FILE_NOT_FOUND) ()
       (\<lambda>binpath. (Call_rmdir binpath True, prim_rmdir be binpath True))"

definition delete :: "ServerConfig \<Rightarrow> Backend \<Rightarrow> jsstring \<Rightarrow> unit run" where
  "delete config be ftppath =
     callWithName config (js ''delete'') ftppath (code FILE_NOT_FOUND) ()
       (\<lambda>binpath. (Call_delete binpath, prim_delete be binpath))"

definition mkdir :: "ServerConfig \<Rightarrow> Backend \<Rightarrow> jsstring \<Rightarrow> unit run" where
  "mkdir config be ftppath =
     callWithName config (js ''mkdir'') ftppath 0 ()
       (\<lambda>binpath. (Call_mkdir binpath True, prim_mkdir be binpath True))"

text \<open>\<open>v.startsWith('/')\<close>.\<close>

definition startsWith_slash :: "jsstring \<Rightarrow> bool" where
  "startsWith_slash v = (case v of [] \<Rightarrow> False | c # _ \<Rightarrow> c = SLASH)"

text \<open>
  \<open>readlink\<close>. \<open>ftp_path_normalize\<close> is \<open>ftp_path.normalize\<close> of \<open>../util/ftp_path\<close>, which is not
  among the source files and is taken as a parameter. The entry is an object the
  fulfilment handler assigns to, so the operation is given with the entry as it is
  left behind.
\<close>

definition readlink ::
  "ServerConfig \<Rightarrow> Backend \<Rightarrow> (jsstring \<Rightarrow> jsstring) \<Rightarrow> FileInfo \<Rightarrow> jsstring
     \<Rightarrow> jsstring run \<times> FileInfo" where
  "readlink config be ftp_path_normalize fileinfo ftppath =
     (if type fileinfo \<noteq> js ''l'' then
        (\<lparr>sync = [], result = Thrown (Error (ftppath @ js '' is not symlink'')), async = []\<rparr>,
         fileinfo)
      else
        (let announce = logWithState config (js ''readlink '' @ filename fileinfo)
         in case str2bin config ftppath of
              Inl thrown \<Rightarrow> (\<lparr>sync = announce, result = Thrown thrown, async = []\<rparr>, fileinfo)
            | Inr binpath \<Rightarrow>
                (let ((reaction, q), fileinfo') =
                       (case prim_readlink be fileinfo binpath of
                          Resolved v0 \<Rightarrow>
                            (let v = (if startsWith_slash v0 then ftp_path_normalize v0
                                      else ftp_path_normalize (ftppath @ js ''/../'' @ v0))
                             in (([StateBar_close], Resolved v), fileinfo\<lparr>link := Some v\<rparr>))
                        | Rejected err \<Rightarrow>
                            ((StateBar_close #
                                log config (js ''readlink fail: '' @ filename fileinfo @ js '', ''
                                              @ message_or_err err),
                              Rejected err), fileinfo)
                        | Pending \<Rightarrow> (([], Pending), fileinfo))
                 in (\<lparr>sync = announce @ [Backend_call (Call_readlink fileinfo binpath)],
                      result = Returned (promiseErrorWrap q),
                      async = reaction\<rparr>, fileinfo'))))"

text \<open>\<open>rename\<close> transcodes the source path, then the target path.\<close>

definition rename :: "ServerConfig \<Rightarrow> Backend \<Rightarrow> jsstring \<Rightarrow> jsstring \<Rightarrow> unit run" where
  "rename config be ftppathFrom ftppathTo =
     (let announce = logWithState config (js ''rename '' @ ftppathFrom @ js '' '' @ ftppathTo)
      in case str2bin config ftppathFrom of
           Inl thrown \<Rightarrow> \<lparr>sync = announce, result = Thrown thrown, async = []\<rparr>
         | Inr binFrom \<Rightarrow>
            (case str2bin config ftppathTo of
               Inl thrown \<Rightarrow> \<lparr>sync = announce, result = Thrown thrown, async = []\<rparr>
             | Inr binTo \<Rightarrow>
                 (let (reaction, q) = promise_then (prim_rename be binFrom binTo)
                         (\<lambda>_. ([StateBar_close], Resolved ()))
                         (\<lambda>err.
                            (StateBar_close #
                               log config (js ''rename fail: '' @ ftppathFrom @ js '' ''
                                             @ ftppathTo @ js '', '' @ message_or_err err),
                             Rejected err))
                  in \<lparr>sync = announce @ [Backend_call (Call_rename binFrom binTo)],
                      result = Returned (promiseErrorWrap q),
                      async = reaction\<rparr>)))"

section \<open>Notions the properties are stated with\<close>

text \<open>A name of ASCII characters only.\<close>

definition is_ascii :: "jsstring \<Rightarrow> bool" where
  "is_ascii n = list_all (\<lambda>c. c < 0x80) n"

text \<open>
  An ASCII-compatible encoding: it encodes a string of ASCII characters as the bytes of
  the same values, and decodes these bytes as that string. UTF-8 and the Latin code
  pages are of this kind; \<open>'hex'\<close> and UTF-16 are not.
\<close>

definition ascii_compatible :: "encoding \<Rightarrow> bool" where
  "ascii_compatible enc \<longleftrightarrow>
     (\<forall>n. is_ascii n \<longrightarrow> encode enc n = map ucast n \<and> decode enc (map ucast n) = n)"

text \<open>\<open>bin2str(str2bin(n))\<close>: a name sent to the wire and read back.\<close>

definition roundtrip :: "ServerConfig \<Rightarrow> jsstring \<Rightarrow> jserror + jsstring" where
  "roundtrip config n =
     (case str2bin config n of Inl thrown \<Rightarrow> Inl thrown | Inr wire \<Rightarrow> bin2str config wire)"

text \<open>
  The test under which \<open>list\<close> collects a transcoded name, read as membership: the
  name holds the replacement character or a question mark.
\<close>

definition suspect :: "jsstring \<Rightarrow> bool" where
  "suspect fn = (REPLACEMENT \<in> set fn \<or> QUESTION \<in> set fn)"

text \<open>
  The specification's wording of the same notion, for comparison: after transcoding the
  name holds the replacement character, or a question mark that the name did not hold
  before transcoding.
\<close>

definition suspect_per_spec :: "jsstring \<Rightarrow> jsstring \<Rightarrow> bool" where
  "suspect_per_spec before after =
     (REPLACEMENT \<in> set after \<or> (QUESTION \<in> set after \<and> QUESTION \<notin> set before))"

text \<open>The argument lists of the callback invocations handed to \<open>setTimeout\<close>, in order.\<close>

definition scheduled :: "event list \<Rightarrow> jsstring list list" where
  "scheduled es = concat (map (\<lambda>ev. case ev of SetTimeout names ms \<Rightarrow> [names] | _ \<Rightarrow> []) es)"

text \<open>
  The ten transfer operations as one type of invocations, so that a property can be
  stated for all of them; \<open>trace\<close> forgets the value an operation resolves with.
\<close>

datatype invocation =
    Upload jsstring File
  | Download File jsstring
  | View jsstring
  | Write jsstring Buffer
  | List jsstring
  | Rmdir jsstring
  | Delete jsstring
  | Mkdir jsstring
  | Readlink FileInfo jsstring
  | Rename jsstring jsstring

definition trace :: "'a run \<Rightarrow> unit run" where
  "trace r = \<lparr>sync = sync r, result = map_completion (\<lambda>_. ()) (result r), async = async r\<rparr>"

fun invoke ::
  "ServerConfig \<Rightarrow> Backend \<Rightarrow> (jsstring \<Rightarrow> jsstring) \<Rightarrow> invocation \<Rightarrow> unit run" where
  "invoke config be nrm (Upload ftppath localpath) = trace (upload config be ftppath localpath)"
| "invoke config be nrm (Download localpath ftppath) = trace (download config be localpath ftppath)"
| "invoke config be nrm (View ftppath) = trace (view config be ftppath)"
| "invoke config be nrm (Write ftppath content) = trace (write' config be ftppath content)"
| "invoke config be nrm (List ftppath) = trace (list config be ftppath)"
| "invoke config be nrm (Rmdir ftppath) = trace (rmdir config be ftppath)"
| "invoke config be nrm (Delete ftppath) = trace (delete config be ftppath)"
| "invoke config be nrm (Mkdir ftppath) = trace (mkdir config be ftppath)"
| "invoke config be nrm (Readlink fileinfo ftppath) =
     trace (fst (readlink config be nrm fileinfo ftppath))"
| "invoke config be nrm (Rename ftppathFrom ftppathTo) =
     trace (rename config be ftppathFrom ftppathTo)"

text \<open>
  Calls of \<open>stateBar.set\<close> and of \<open>stateBar.close\<close> during an invocation, and whether the
  invocation ever hands a failure or a value to its caller.
\<close>

fun is_announce :: "event \<Rightarrow> bool" where
  "is_announce (StateBar_set m) = True"
| "is_announce _ = False"

definition announces :: "'a run \<Rightarrow> nat" where
  "announces r = length (filter is_announce (sync r @ async r))"

definition settles :: "'a run \<Rightarrow> nat" where
  "settles r = count_list (sync r @ async r) StateBar_close"

definition exits :: "'a run \<Rightarrow> bool" where
  "exits r = (case result r of Returned Pending \<Rightarrow> False | _ \<Rightarrow> True)"

text \<open>
  A stream that emits both \<open>close\<close> and \<open>error\<close> runs both listeners of \<open>download\<close>
  and \<open>view\<close>. \<open>covered\<close> holds of the invocations whose configured encoding iconv
  recognises, whose entry, for \<open>readlink\<close>, is a symlink, and whose stream, if any, does
  not do so.
\<close>

fun is_error :: "stream_event \<Rightarrow> bool" where
  "is_error (StreamError err) = True"
| "is_error _ = False"

definition closes_and_fails :: "ReadableStream \<Rightarrow> bool" where
  "closes_and_fails stream = (Close \<in> set stream \<and> list_ex is_error stream)"

definition single_ended :: "ServerConfig \<Rightarrow> Backend \<Rightarrow> jsstring \<Rightarrow> bool" where
  "single_ended config be ftppath =
     (case str2bin config ftppath of
        Inl thrown \<Rightarrow> True
      | Inr binpath \<Rightarrow>
          (case prim_get be binpath of
             Resolved stream \<Rightarrow> \<not> closes_and_fails stream
           | _ \<Rightarrow> True))"

fun well_formed :: "ServerConfig \<Rightarrow> Backend \<Rightarrow> invocation \<Rightarrow> bool" where
  "well_formed config be (Readlink fileinfo ftppath) = (type fileinfo = js ''l'')"
| "well_formed config be (Download localpath ftppath) = single_ended config be ftppath"
| "well_formed config be (View ftppath) = single_ended config be ftppath"
| "well_formed config be _ = True"

definition covered :: "ServerConfig \<Rightarrow> Backend \<Rightarrow> invocation \<Rightarrow> bool" where
  "covered config be call = (fileNameEncoding config \<noteq> None \<and> well_formed config be call)"

text \<open>
  An invocation is reported when \<open>stateBar.set\<close> is called once, as the first effect of
  the call, and \<open>stateBar.close\<close> is called once, after the call has returned.
\<close>

definition reported :: "'a run \<Rightarrow> bool" where
  "reported r \<longleftrightarrow>
     announces r = 1 \<and> settles r = 1
     \<and> (case sync r of StateBar_set m # rest \<Rightarrow> True | _ \<Rightarrow> False)
     \<and> StateBar_close \<notin> set (sync r)"

section \<open>Concrete collaborators\<close>

text \<open>A backend whose every primitive rejects with \<open>err\<close>, and one whose every primitive resolves.\<close>

definition failing_backend :: "jserror \<Rightarrow> Backend" where
  "failing_backend err =
     \<lparr>prim_mkdir = (\<lambda>_ _. Rejected err), prim_rmdir = (\<lambda>_ _. Rejected err),
      prim_delete = (\<lambda>_. Rejected err), prim_put = (\<lambda>_ _. Rejected err),
      prim_write = (\<lambda>_ _. Rejected err), prim_get = (\<lambda>_. Rejected err),
      prim_list = (\<lambda>_. Rejected err), prim_readlink = (\<lambda>_ _. Rejected err),
      prim_rename = (\<lambda>_ _. Rejected err)\<rparr>"

definition serving_backend :: "ReadableStream \<Rightarrow> FileInfo list \<Rightarrow> jsstring \<Rightarrow> Backend" where
  "serving_backend stream entries target =
     \<lparr>prim_mkdir = (\<lambda>_ _. Resolved ()), prim_rmdir = (\<lambda>_ _. Resolved ()),
      prim_delete = (\<lambda>_. Resolved ()), prim_put = (\<lambda>_ _. Resolved ()),
      prim_write = (\<lambda>_ _. Resolved ()), prim_get = (\<lambda>_. Resolved stream),
      prim_list = (\<lambda>_. Resolved entries), prim_readlink = (\<lambda>_ _. Resolved target),
      prim_rename = (\<lambda>_ _. Resolved ())\<rparr>"

text \<open>
  Configurations with the file name encodings \<open>'binary'\<close> and \<open>'hex'\<close>, and one whose
  encoding name iconv does not recognise.
\<close>

definition latin1_config :: ServerConfig where
  "latin1_config = \<lparr>name = Some (js ''srv''), fileNameEncoding = Some binary,
     ignoreWrongFileEncoding = False\<rparr>"

definition hex_config :: ServerConfig where
  "hex_config = \<lparr>name = None, fileNameEncoding = Some hex, ignoreWrongFileEncoding = False\<rparr>"

definition unknown_config :: ServerConfig where
  "unknown_config = \<lparr>name = None, fileNameEncoding = None, ignoreWrongFileEncoding = False\<rparr>"

definition not_found :: jserror where
  "not_found = \<lparr>message = js ''No such file'', ftpCode = Some 2,
     as_string = js ''Error: No such file''\<rparr>"

definition exists_already :: jserror where
  "exists_already = \<lparr>message = js ''File exists'', ftpCode = Some 0,
     as_string = js ''Error: File exists''\<rparr>"

definition timed_out :: jserror where
  "timed_out = \<lparr>message = js ''Timeout'', ftpCode = None, as_string = js ''Error: Timeout''\<rparr>"

definition entry :: "string \<Rightarrow> string \<Rightarrow> FileInfo" where
  "entry t n = \<lparr>type = js t, filename = js n, link = None\<rparr>"

section \<open>Auxiliary facts\<close>

lemmas op_defs = promise_then_def promiseErrorWrap_def logWithState_def log_def Let_def

lemma download_listeners_announce:
  "filter is_announce (fst (download_listeners c e p stream)) = []"
  by (induction c e p stream rule: download_listeners.induct) (auto split: prod.splits)

lemma download_listeners_settle:
  "count_list (fst (download_listeners c e p stream)) StateBar_close =
     (if c \<and> Close \<in> set stream then 1 else 0) + (if e \<and> list_ex is_error stream then 1 else 0)"
  by (induction c e p stream rule: download_listeners.induct) (auto split: prod.splits)

lemma download_listeners_pending:
  "snd (download_listeners c e p stream) = Pending \<longleftrightarrow>
     p = Pending \<and> \<not> (c \<and> Close \<in> set stream) \<and> \<not> (e \<and> list_ex is_error stream)"
  by (induction c e p stream rule: download_listeners.induct)
     (auto split: prod.splits Promise.splits simp: resolve_def reject_def)

lemma view_listeners_announce:
  "filter is_announce (fst (view_listeners c e bufs p stream)) = []"
  by (induction c e bufs p stream rule: view_listeners.induct) (auto split: prod.splits)

lemma view_listeners_settle:
  "count_list (fst (view_listeners c e bufs p stream)) StateBar_close =
     (if c \<and> Close \<in> set stream then 1 else 0) + (if e \<and> list_ex is_error stream then 1 else 0)"
  by (induction c e bufs p stream rule: view_listeners.induct) (auto split: prod.splits)

lemma view_listeners_pending:
  "snd (view_listeners c e bufs p stream) = Pending \<longleftrightarrow>
     p = Pending \<and> \<not> (c \<and> Close \<in> set stream) \<and> \<not> (e \<and> list_ex is_error stream)"
  by (induction c e bufs p stream rule: view_listeners.induct)
     (auto split: prod.splits Promise.splits simp: resolve_def reject_def)

lemma indexOf_from_found: "0 \<le> i \<Longrightarrow> indexOf_from fn c i \<noteq> - 1 \<longleftrightarrow> c \<in> set fn"
proof (induction fn arbitrary: i)
  case Nil
  then show ?case by simp
next
  case (Cons x xs)
  then show ?case by (cases "x = c") auto
qed

lemma indexOf_found: "indexOf fn c \<noteq> - 1 \<longleftrightarrow> c \<in> set fn"
  by (simp add: indexOf_def indexOf_from_found)

lemma str2bin_recognised:
  "fileNameEncoding config = Some enc \<Longrightarrow> str2bin config s = Inr (decode binary (encode enc s))"
  by (simp add: str2bin_def iconv_encode_def iconv_decode_def)

lemma bin2str_recognised:
  "fileNameEncoding config = Some enc \<Longrightarrow> bin2str config b = Inr (decode enc (encode binary b))"
  by (simp add: bin2str_def iconv_encode_def iconv_decode_def)

lemma str2bin_unrecognised:
  "fileNameEncoding config = None \<Longrightarrow> str2bin config s = Inl not_recognized"
  by (simp add: str2bin_def iconv_encode_def)

lemma list_loop_eq:
  "fileNameEncoding config = Some enc \<Longrightarrow>
   list_loop config entries acc =
     Inr (map (\<lambda>f. f\<lparr>filename := decode enc (encode binary (filename f))\<rparr>) entries,
          acc @ (if ignoreWrongFileEncoding config then []
                 else filter suspect (map (\<lambda>f. decode enc (encode binary (filename f))) entries)))"
  by (induction entries arbitrary: acc)
     (auto simp: Let_def indexOf_found suspect_def bin2str_recognised)

lemma ucast_byte: "(ucast (ucast (b :: 8 word) :: 16 word) :: 8 word) = b"
  by (rule ucast_up_ucast_id) (simp add: is_up)

lemma ucast_ascii:
  assumes "c < 0x80"
  shows "(ucast (ucast (c :: 16 word) :: 8 word) :: 16 word) = c"
proof -
  from assms have "c < 2 ^ 8" by (simp add: word_less_nat_alt)
  then have "and c (mask 8) = c" by (rule less_mask_eq)
  then have "take_bit 8 c = c" by (simp add: take_bit_eq_mask)
  then show ?thesis by (simp add: unsigned_ucast_eq)
qed

lemma binary_ascii: "is_ascii n \<Longrightarrow> decode binary (map ucast n) = n"
  by (induction n) (simp_all add: is_ascii_def binary_def ucast_ascii)

lemma binary_ascii_compatible: "ascii_compatible binary"
  unfolding ascii_compatible_def
proof (intro allI impI conjI)
  fix n :: jsstring
  assume "is_ascii n"
  show "encode binary n = map ucast n" by (simp add: binary_def)
  show "decode binary (map ucast n) = n" using \<open>is_ascii n\<close> by (rule binary_ascii)
qed

lemma trace_simps:
  "sync (trace r) = sync r" "async (trace r) = async r"
  "announces (trace r) = announces r" "settles (trace r) = settles r"
  "exits (trace r) = exits r"
  by (cases "result r"; simp add: trace_def announces_def settles_def exits_def
        split: completion.splits Promise.splits; rename_tac p; case_tac p; simp)+

lemma reported_trace: "reported (trace r) = reported r"
  by (simp add: reported_def trace_simps)

lemmas count_defs = reported_def announces_def settles_def exits_def

lemma callWithName_reported:
  "fileNameEncoding config = Some enc \<Longrightarrow>
   exits (callWithName config nm ftppath ignorecode defVal callback) \<Longrightarrow>
     reported (callWithName config nm ftppath ignorecode defVal callback)"
  by (cases "snd (callback (decode binary (encode enc ftppath)))")
     (auto simp: callWithName_def op_defs count_defs str2bin_recognised split: prod.splits)

lemma upload_reported:
  "fileNameEncoding config = Some enc \<Longrightarrow> exits (upload config be p f) \<Longrightarrow>
     reported (upload config be p f)"
  by (cases "prim_put be f (decode binary (encode enc p))")
     (auto simp: upload_def op_defs count_defs str2bin_recognised)

lemma write_reported:
  "fileNameEncoding config = Some enc \<Longrightarrow> exits (write' config be p c) \<Longrightarrow>
     reported (write' config be p c)"
  by (cases "prim_write be c (decode binary (encode enc p))")
     (auto simp: write'_def op_defs count_defs str2bin_recognised)

lemma rename_reported:
  "fileNameEncoding config = Some enc \<Longrightarrow> exits (rename config be p q) \<Longrightarrow>
     reported (rename config be p q)"
  by (cases "prim_rename be (decode binary (encode enc p)) (decode binary (encode enc q))")
     (auto simp: rename_def op_defs count_defs str2bin_recognised)

lemma list_reported:
  "fileNameEncoding config = Some enc \<Longrightarrow> exits (list config be p) \<Longrightarrow>
     reported (list config be p)"
  by (cases "prim_list be (decode binary (encode enc (if p = [] then js ''.'' else p)))")
     (auto simp: list_def op_defs count_defs str2bin_recognised list_loop_eq)

lemma readlink_reported:
  "fileNameEncoding config = Some enc \<Longrightarrow> type fi = js ''l'' \<Longrightarrow>
   exits (fst (readlink config be nrm fi p)) \<Longrightarrow>
     reported (fst (readlink config be nrm fi p))"
  by (cases "prim_readlink be fi (decode binary (encode enc p))")
     (auto simp: readlink_def op_defs count_defs str2bin_recognised)

lemma download_reported:
  assumes enc: "fileNameEncoding config = Some enc"
    and "single_ended config be p"
    and "exits (download config be f p)"
  shows "reported (download config be f p)"
proof (cases "prim_get be (decode binary (encode enc p))")
  case (Resolved stream)
  obtain tr q where d: "download_listeners True True Pending stream = (tr, q)"
    by (cases "download_listeners True True Pending stream")
  have q: "q \<noteq> Pending"
    using assms(3) Resolved d enc
    by (auto simp: download_def op_defs exits_def str2bin_recognised split: Promise.splits)
  have once: "(Close \<in> set stream) \<noteq> list_ex is_error stream"
    using q download_listeners_pending [of True True Pending stream] assms(2) Resolved d enc
    by (auto simp: closes_and_fails_def single_ended_def str2bin_recognised)
  have "count_list tr StateBar_close = 1"
    using download_listeners_settle [of True True Pending stream] d once by auto
  moreover have "filter is_announce tr = []"
    using download_listeners_announce [of True True Pending stream] d by simp
  ultimately show ?thesis
    using Resolved d enc by (simp add: download_def op_defs count_defs str2bin_recognised)
next
  case (Rejected err)
  then show ?thesis using enc by (simp add: download_def op_defs count_defs str2bin_recognised)
next
  case Pending
  with assms(3) enc show ?thesis
    by (simp add: download_def op_defs count_defs str2bin_recognised)
qed

lemma view_reported:
  assumes enc: "fileNameEncoding config = Some enc"
    and "single_ended config be p"
    and "exits (view config be p)"
  shows "reported (view config be p)"
proof (cases "prim_get be (decode binary (encode enc p))")
  case (Resolved stream)
  obtain tr q where d: "view_listeners True True [] Pending stream = (tr, q)"
    by (cases "view_listeners True True [] Pending stream")
  have q: "q \<noteq> Pending"
    using assms(3) Resolved d enc
    by (auto simp: view_def op_defs exits_def str2bin_recognised split: Promise.splits)
  have once: "(Close \<in> set stream) \<noteq> list_ex is_error stream"
    using q view_listeners_pending [of True True "[]" Pending stream] assms(2) Resolved d enc
    by (auto simp: closes_and_fails_def single_ended_def str2bin_recognised)
  have "count_list tr StateBar_close = 1"
    using view_listeners_settle [of True True "[]" Pending stream] d once by auto
  moreover have "filter is_announce tr = []"
    using view_listeners_announce [of True True "[]" Pending stream] d by simp
  ultimately show ?thesis
    using Resolved d enc by (simp add: view_def op_defs count_defs str2bin_recognised)
next
  case (Rejected err)
  then show ?thesis using enc by (simp add: view_def op_defs count_defs str2bin_recognised)
next
  case Pending
  with assms(3) enc show ?thesis
    by (simp add: view_def op_defs count_defs str2bin_recognised)
qed

text \<open>
  Why \<open>covered\<close> leaves out a stream that both fails and closes, and an encoding name that
  iconv does not recognise: the two listeners of \<open>download\<close> are registered independently
  and each closes the status bar; and \<open>str2bin\<close> throws after the announcement, before
  any handler that would close the status bar is registered.
\<close>

lemma download_error_then_close_settles_twice:
  "settles (download latin1_config (serving_backend [StreamError timed_out, Close] [] [])
      (js ''local.bin'') (js ''/remote.bin'')) = 2"
  by (simp add: serving_backend_def download_def op_defs settles_def resolve_def reject_def
        str2bin_recognised latin1_config_def)

lemma unrecognised_encoding_announces_and_throws:
  "result (upload unknown_config be (js ''/remote.bin'') (js ''local.bin'')) = Thrown not_recognized
   \<and> announces (upload unknown_config be (js ''/remote.bin'') (js ''local.bin'')) = 1
   \<and> settles (upload unknown_config be (js ''/remote.bin'') (js ''local.bin'')) = 0"
  by (simp add: upload_def op_defs announces_def settles_def str2bin_unrecognised
        unknown_config_def)

section \<open>Properties of the operations\<close>

subsection \<open>C1\<close>

text \<open>
  C1. As amended: under a file name encoding that iconv recognises, every invocation of
  \<open>upload\<close>, \<open>write\<close>, \<open>list\<close>, \<open>rmdir\<close>, \<open>delete\<close>, \<open>mkdir\<close>, \<open>rename\<close>, of \<open>readlink\<close> on an entry
  of type \<open>'l'\<close>, and of \<open>download\<close> and \<open>view\<close> whose stream does not emit both \<open>close\<close>
  and \<open>error\<close>, that resolves or rejects (with a success, a swallowed failure or a
  propagated failure) calls \<open>stateBar.set\<close> exactly once, as its first effect, and
  \<open>stateBar.close\<close> exactly once, after the call has returned. The collaborators (the
  backend primitive, \<open>ftp_path.normalize\<close>, the local file) return rather than throw.
\<close>

theorem announce_once_settle_once:
  assumes "covered config be call" and "exits (invoke config be nrm call)"
  shows "announces (invoke config be nrm call) = 1
       \<and> settles (invoke config be nrm call) = 1
       \<and> (\<exists>m rest. sync (invoke config be nrm call) = StateBar_set m # rest)
       \<and> StateBar_close \<notin> set (sync (invoke config be nrm call))"
proof -
  from assms(1) obtain enc where enc: "fileNameEncoding config = Some enc"
    and wf: "well_formed config be call"
    by (auto simp: covered_def)
  have "reported (invoke config be nrm call)"
  proof (cases call)
    case (Upload p f)
    with assms(2) enc show ?thesis
      by (simp add: trace_simps reported_trace upload_reported)
  next
    case (Download f p)
    with assms(2) enc wf show ?thesis
      by (simp add: trace_simps reported_trace download_reported)
  next
    case (View p)
    with assms(2) enc wf show ?thesis
      by (simp add: trace_simps reported_trace view_reported)
  next
    case (Write p c)
    with assms(2) enc show ?thesis
      by (simp add: trace_simps reported_trace write_reported)
  next
    case (List p)
    with assms(2) enc show ?thesis
      by (simp add: trace_simps reported_trace list_reported)
  next
    case (Rmdir p)
    with assms(2) enc show ?thesis
      by (simp add: trace_simps reported_trace rmdir_def callWithName_reported)
  next
    case (Delete p)
    with assms(2) enc show ?thesis
      by (simp add: trace_simps reported_trace delete_def callWithName_reported)
  next
    case (Mkdir p)
    with assms(2) enc show ?thesis
      by (simp add: trace_simps reported_trace mkdir_def callWithName_reported)
  next
    case (Readlink fi p)
    with assms(2) enc wf show ?thesis
      by (simp add: trace_simps reported_trace readlink_reported)
  next
    case (Rename p q)
    with assms(2) enc show ?thesis
      by (simp add: trace_simps reported_trace rename_reported)
  qed
  then show ?thesis
    by (auto simp: reported_def split: list.splits event.splits)
qed

theorem announce_once_settle_once_witness:
  "covered latin1_config (serving_backend [Data [1, 2], Close] [] [])
     (Download (js ''local.bin'') (js ''/remote.bin''))
   \<and> exits (invoke latin1_config (serving_backend [Data [1, 2], Close] [] []) id
        (Download (js ''local.bin'') (js ''/remote.bin'')))
   \<and> announces (invoke latin1_config (serving_backend [Data [1, 2], Close] [] []) id
        (Download (js ''local.bin'') (js ''/remote.bin''))) = 1
   \<and> settles (invoke latin1_config (serving_backend [Data [1, 2], Close] [] []) id
        (Download (js ''local.bin'') (js ''/remote.bin''))) = 1"
proof -
  have e: "fileNameEncoding latin1_config = Some binary"
    by (simp add: latin1_config_def)
  have h1: "covered latin1_config (serving_backend [Data [1, 2], Close] [] [])
     (Download (js ''local.bin'') (js ''/remote.bin''))"
    by (simp add: covered_def single_ended_def str2bin_recognised [OF e] e
          serving_backend_def closes_and_fails_def)
  have h2: "exits (invoke latin1_config (serving_backend [Data [1, 2], Close] [] []) id
        (Download (js ''local.bin'') (js ''/remote.bin'')))"
    by (simp add: serving_backend_def download_def op_defs exits_def trace_def resolve_def
          str2bin_recognised [OF e])
  show ?thesis
    using h1 h2 announce_once_settle_once [OF h1 h2] by blast
qed

text \<open>
  C1 as stated fails: \<open>readlink\<close> on a directory entry hands a failure to its caller, and
  neither \<open>stateBar.set\<close> nor \<open>stateBar.close\<close> has been called.
\<close>

theorem readlink_not_symlink_counterexample:
  "result (invoke latin1_config (serving_backend [] [] (js ''x'')) id
        (Readlink (entry ''d'' ''pub'') (js ''/pub''))) = Thrown (Error (js ''/pub'' @ js '' is not symlink''))
   \<and> exits (invoke latin1_config (serving_backend [] [] (js ''x'')) id
        (Readlink (entry ''d'' ''pub'') (js ''/pub'')))
   \<and> announces (invoke latin1_config (serving_backend [] [] (js ''x'')) id
        (Readlink (entry ''d'' ''pub'') (js ''/pub''))) = 0
   \<and> settles (invoke latin1_config (serving_backend [] [] (js ''x'')) id
        (Readlink (entry ''d'' ''pub'') (js ''/pub''))) = 0"
proof -
  have t: "type (entry ''d'' ''pub'') \<noteq> js ''l''"
    by (simp add: entry_def js_def)
  then show ?thesis
    by (simp add: readlink_def trace_def exits_def announces_def settles_def)
qed

subsection \<open>C2\<close>

text \<open>
  C2. As amended: when wrong encodings are not tolerated, \<open>list\<close> replaces every entry's
  name by its transcoding and collects a transcoded name exactly when it holds the
  replacement character or a question mark, whether or not the question mark was in
  the name before transcoding; the collected names keep the order of the entries. The
  loop runs under an encoding that iconv recognises, and \<open>bin2str\<close> then returns for
  every name.
\<close>

theorem list_collects_replacement_or_question:
  assumes "\<not> ignoreWrongFileEncoding config"
    and "fileNameEncoding config = Some enc"
  shows "list_loop config entries [] =
           Inr (map (\<lambda>f. f\<lparr>filename := decode enc (encode binary (filename f))\<rparr>) entries,
                filter (\<lambda>fn. REPLACEMENT \<in> set fn \<or> QUESTION \<in> set fn)
                  (map (\<lambda>f. decode enc (encode binary (filename f))) entries))
       \<and> (\<forall>bin. bin2str config bin = Inr (decode enc (encode binary bin)))"
proof -
  have "suspect = (\<lambda>fn. REPLACEMENT \<in> set fn \<or> QUESTION \<in> set fn)"
    by (simp add: suspect_def fun_eq_iff)
  with assms show ?thesis
    by (simp add: list_loop_eq bin2str_recognised)
qed

theorem list_collects_replacement_or_question_witness:
  "\<not> ignoreWrongFileEncoding latin1_config
   \<and> fileNameEncoding latin1_config = Some binary
   \<and> list_loop latin1_config [entry ''-'' ''what?.txt'', entry ''d'' ''pub''] [] =
       Inr ([entry ''-'' ''what?.txt'', entry ''d'' ''pub''], [js ''what?.txt''])"
proof -
  have h: "\<not> ignoreWrongFileEncoding latin1_config"
    by (simp add: latin1_config_def)
  have e: "fileNameEncoding latin1_config = Some binary"
    by (simp add: latin1_config_def)
  have b: "decode binary (encode binary (js ''what?.txt'')) = js ''what?.txt''"
          "decode binary (encode binary (js ''pub'')) = js ''pub''"
    by (simp_all add: binary_def js_def)
  have m: "QUESTION \<in> set (js ''what?.txt'')" "QUESTION \<notin> set (js ''pub'')"
    "REPLACEMENT \<notin> set (js ''what?.txt'')" "REPLACEMENT \<notin> set (js ''pub'')"
    by (simp_all add: js_def QUESTION_def REPLACEMENT_def)
  show ?thesis
    using h e list_collects_replacement_or_question [OF h e, of "[entry ''-'' ''what?.txt'', entry ''d'' ''pub'']"]
    by (simp add: entry_def b m del: list_loop.simps)
qed

text \<open>
  C2 as stated fails: under a Latin-1 file name encoding the entry \<open>what?.txt\<close> is
  transcoded to itself, its question mark was there before transcoding, and \<open>list\<close>
  collects it all the same.
\<close>

theorem question_mark_kept_counterexample:
  "\<not> ignoreWrongFileEncoding latin1_config
   \<and> bin2str latin1_config (js ''what?.txt'') = Inr (js ''what?.txt'')
   \<and> list_loop latin1_config [entry ''-'' ''what?.txt''] [] =
       Inr ([entry ''-'' ''what?.txt''], [js ''what?.txt''])
   \<and> \<not> suspect_per_spec (js ''what?.txt'') (js ''what?.txt'')"
proof -
  have e: "fileNameEncoding latin1_config = Some binary"
    by (simp add: latin1_config_def)
  have b: "bin2str latin1_config (js ''what?.txt'') = Inr (js ''what?.txt'')"
    by (simp add: bin2str_recognised [OF e]) (simp add: binary_def js_def)
  have m: "QUESTION \<in> set (js ''what?.txt'')" "REPLACEMENT \<notin> set (js ''what?.txt'')"
    by (simp_all add: js_def QUESTION_def REPLACEMENT_def)
  have i: "\<not> ignoreWrongFileEncoding latin1_config"
    by (simp add: latin1_config_def)
  show ?thesis
    using i by (simp add: entry_def b m Let_def indexOf_found suspect_per_spec_def)
qed

subsection \<open>C3\<close>

text \<open>
  C3. \<open>readlink\<close> on an entry whose type is not \<open>'l'\<close> fails at once: the call throws, no
  backend primitive is called in any phase, and the outcome does not depend on the
  backend at all.
\<close>

theorem readlink_not_symlink_no_backend:
  assumes "type fileinfo \<noteq> js ''l''"
  shows "(\<exists>err. result (fst (readlink config be nrm fileinfo ftppath)) = Thrown err)
       \<and> (\<forall>c. Backend_call c \<notin> set (sync (fst (readlink config be nrm fileinfo ftppath))
                                      @ async (fst (readlink config be nrm fileinfo ftppath))))
       \<and> readlink config be nrm fileinfo ftppath = readlink config be' nrm fileinfo ftppath"
  using assms by (simp add: readlink_def)

theorem readlink_not_symlink_no_backend_witness:
  "type (entry ''d'' ''pub'') \<noteq> js ''l''
   \<and> (\<exists>err. result (fst (readlink latin1_config (serving_backend [] [] (js ''x'')) id
                (entry ''d'' ''pub'') (js ''/pub''))) = Thrown err)
   \<and> readlink latin1_config (serving_backend [] [] (js ''x'')) id (entry ''d'' ''pub'') (js ''/pub'')
     = readlink latin1_config (failing_backend not_found) id (entry ''d'' ''pub'') (js ''/pub'')"
proof -
  have h: "type (entry ''d'' ''pub'') \<noteq> js ''l''"
    by (simp add: entry_def js_def)
  show ?thesis
    using h readlink_not_symlink_no_backend [OF h, of latin1_config "serving_backend [] [] (js ''x'')" id
        "js ''/pub''" "failing_backend not_found"]
    by blast
qed

subsection \<open>C4\<close>

text \<open>
  C4. For a symlink entry whose backend \<open>_readlink\<close>, called with the wire form of the path,
  resolves with the raw target \<open>t\<close>: the result is \<open>normalize(t)\<close> when \<open>t\<close> starts with
  \<open>'/'\<close>, and \<open>normalize(ftppath + '/../' + t)\<close> otherwise, and when the operation resolves
  the entry's \<open>link\<close> field holds that value.
\<close>

theorem readlink_resolves_target:
  assumes "type fileinfo = js ''l''"
    and "str2bin config ftppath = Inr binpath"
    and "prim_readlink be fileinfo binpath = Resolved t"
  shows "result (fst (readlink config be nrm fileinfo ftppath)) =
           Returned (Resolved (if take 1 t = js ''/'' then nrm t
                               else nrm (ftppath @ js ''/../'' @ t)))
       \<and> snd (readlink config be nrm fileinfo ftppath) =
           fileinfo\<lparr>link := Some (if take 1 t = js ''/'' then nrm t
                                   else nrm (ftppath @ js ''/../'' @ t))\<rparr>"
proof -
  have "startsWith_slash t \<longleftrightarrow> take 1 t = js ''/''"
    by (cases t) (auto simp: startsWith_slash_def js_def SLASH_def)
  then show ?thesis
    using assms by (simp add: readlink_def op_defs)
qed

theorem readlink_resolves_target_witness:
  "type (entry ''l'' ''link'') = js ''l''
   \<and> str2bin latin1_config (js ''/a/b/link'') = Inr (js ''/a/b/link'')
   \<and> prim_readlink (serving_backend [] [] (js ''c'')) (entry ''l'' ''link'')
        (js ''/a/b/link'') = Resolved (js ''c'')
   \<and> result (fst (readlink latin1_config (serving_backend [] [] (js ''c'')) id
                (entry ''l'' ''link'') (js ''/a/b/link'')))
       = Returned (Resolved (js ''/a/b/link/../c''))
   \<and> link (snd (readlink latin1_config (serving_backend [] [] (js ''c'')) id
                (entry ''l'' ''link'') (js ''/a/b/link''))) = Some (js ''/a/b/link/../c'')"
proof -
  have e: "fileNameEncoding latin1_config = Some binary"
    by (simp add: latin1_config_def)
  have h1: "type (entry ''l'' ''link'') = js ''l''"
    by (simp add: entry_def)
  have h2: "str2bin latin1_config (js ''/a/b/link'') = Inr (js ''/a/b/link'')"
    by (simp add: str2bin_recognised [OF e]) (simp add: binary_def js_def)
  have h3: "prim_readlink (serving_backend [] [] (js ''c'')) (entry ''l'' ''link'')
        (js ''/a/b/link'') = Resolved (js ''c'')"
    by (simp add: serving_backend_def)
  show ?thesis
    using h1 h2 h3 readlink_resolves_target [OF h1 h2 h3, of id]
    by (simp add: js_def)
qed

subsection \<open>C5\<close>

text \<open>
  C5. When the backend, called with the wire form of the path, fails with \<open>ftpCode\<close>
  \<open>FILE_NOT_FOUND\<close>, \<open>rmdir\<close> and \<open>delete\<close> resolve with no value and the only log line is
  the announcement; when it fails with any other classification, the failure line
  \<open>name fail: path\<close> is logged after the status bar is closed, and the promise is rejected
  with the backend's error.
\<close>

theorem rmdir_delete_swallow_not_found:
  "(str2bin config ftppath = Inr binpath \<and> prim_rmdir be binpath True = Rejected err \<longrightarrow>
      sync (rmdir config be ftppath) =
        [StateBar_set (prefixed config (js ''rmdir'' @ js '' '' @ ftppath)),
         Logger_message (prefixed config (js ''rmdir'' @ js '' '' @ ftppath)),
         Backend_call (Call_rmdir binpath True)]
      \<and> (if ftpCode err = Some (code FILE_NOT_FOUND)
         then result (rmdir config be ftppath) = Returned (Resolved ())
            \<and> async (rmdir config be ftppath) = [StateBar_close]
         else result (rmdir config be ftppath) = Returned (Rejected err)
            \<and> async (rmdir config be ftppath) =
                [StateBar_close,
                 Logger_message (prefixed config (js ''rmdir'' @ js '' fail: '' @ ftppath))]))
 \<and> (str2bin config ftppath = Inr binpath \<and> prim_delete be binpath = Rejected err \<longrightarrow>
      sync (delete config be ftppath) =
        [StateBar_set (prefixed config (js ''delete'' @ js '' '' @ ftppath)),
         Logger_message (prefixed config (js ''delete'' @ js '' '' @ ftppath)),
         Backend_call (Call_delete binpath)]
      \<and> (if ftpCode err = Some (code FILE_NOT_FOUND)
         then result (delete config be ftppath) = Returned (Resolved ())
            \<and> async (delete config be ftppath) = [StateBar_close]
         else result (delete config be ftppath) = Returned (Rejected err)
            \<and> async (delete config be ftppath) =
                [StateBar_close,
                 Logger_message (prefixed config (js ''delete'' @ js '' fail: '' @ ftppath))]))"
  by (simp add: rmdir_def delete_def callWithName_def op_defs)

theorem rmdir_delete_swallow_not_found_witness:
  "str2bin latin1_config (js ''/old'') = Inr (js ''/old'')
   \<and> prim_rmdir (failing_backend not_found) (js ''/old'') True = Rejected not_found
   \<and> prim_delete (failing_backend not_found) (js ''/old'') = Rejected not_found
   \<and> ftpCode not_found = Some (code FILE_NOT_FOUND)
   \<and> result (rmdir latin1_config (failing_backend not_found) (js ''/old'')) = Returned (Resolved ())
   \<and> async (rmdir latin1_config (failing_backend not_found) (js ''/old'')) = [StateBar_close]
   \<and> result (delete latin1_config (failing_backend not_found) (js ''/old'')) = Returned (Resolved ())
   \<and> async (delete latin1_config (failing_backend not_found) (js ''/old'')) = [StateBar_close]"
proof -
  have e: "fileNameEncoding latin1_config = Some binary"
    by (simp add: latin1_config_def)
  have s: "str2bin latin1_config (js ''/old'') = Inr (js ''/old'')"
    by (simp add: str2bin_recognised [OF e]) (simp add: binary_def js_def)
  show ?thesis
    using s rmdir_delete_swallow_not_found [of latin1_config "js ''/old''" "js ''/old''"
        "failing_backend not_found" not_found]
    by (simp add: failing_backend_def not_found_def)
qed

subsection \<open>C6\<close>

text \<open>
  C6. \<open>mkdir\<close> resolves exactly when the backend, called with the wire form of the path,
  resolves or rejects with \<open>ftpCode\<close> 0; a rejection with any other \<open>ftpCode\<close>, or with
  none, is logged and handed to the caller.
\<close>

theorem mkdir_swallows_code_0_only:
  "(result (mkdir config be ftppath) = Returned (Resolved ()) \<longleftrightarrow>
      (\<exists>binpath. str2bin config ftppath = Inr binpath
         \<and> (prim_mkdir be binpath True = Resolved ()
            \<or> (\<exists>err. prim_mkdir be binpath True = Rejected err \<and> ftpCode err = Some 0))))
 \<and> (str2bin config ftppath = Inr binpath \<and> prim_mkdir be binpath True = Rejected err
       \<and> ftpCode err \<noteq> Some 0 \<longrightarrow>
      result (mkdir config be ftppath) = Returned (Rejected err)
      \<and> async (mkdir config be ftppath) =
          [StateBar_close,
           Logger_message (prefixed config (js ''mkdir'' @ js '' fail: '' @ ftppath))])"
proof (cases "str2bin config ftppath")
  case (Inl thrown)
  then show ?thesis by (simp add: mkdir_def callWithName_def op_defs)
next
  case (Inr b)
  then show ?thesis
    by (cases "prim_mkdir be b True") (auto simp add: mkdir_def callWithName_def op_defs)
qed

theorem mkdir_swallows_code_0_only_witness:
  "str2bin latin1_config (js ''/new'') = Inr (js ''/new'')
   \<and> prim_mkdir (failing_backend timed_out) (js ''/new'') True = Rejected timed_out
   \<and> ftpCode timed_out \<noteq> Some 0
   \<and> result (mkdir latin1_config (failing_backend timed_out) (js ''/new'')) = Returned (Rejected timed_out)
   \<and> result (mkdir latin1_config (failing_backend exists_already) (js ''/new'')) = Returned (Resolved ())"
proof -
  have e: "fileNameEncoding latin1_config = Some binary"
    by (simp add: latin1_config_def)
  have s: "str2bin latin1_config (js ''/new'') = Inr (js ''/new'')"
    by (simp add: str2bin_recognised [OF e]) (simp add: binary_def js_def)
  show ?thesis
    using s
      mkdir_swallows_code_0_only [of latin1_config "failing_backend timed_out" "js ''/new''"
        "js ''/new''" timed_out]
      mkdir_swallows_code_0_only [of latin1_config "failing_backend exists_already" "js ''/new''"
        "js ''/new''" exists_already]
    by (simp add: failing_backend_def timed_out_def exists_already_def)
qed

subsection \<open>C7\<close>

text \<open>
  C7. As amended: when the backend's listing resolves, \<open>list\<close> hands the invalid-encoding
  callback to \<open>setTimeout\<close> exactly once, with delay 0 and exactly the names that hold the
  replacement character or a question mark after transcoding (whether or not the
  question mark was there before), in the order of the listing, if wrong encodings are
  not tolerated and there is such a name; otherwise it schedules nothing. \<open>list\<close> never
  calls the callback itself, and it schedules it in the fulfilment handler, after the
  status bar is closed: nothing is scheduled before the call has returned.
\<close>

theorem list_schedules_callback_once:
  assumes "fileNameEncoding config = Some enc"
    and "str2bin config (if ftppath = [] then js ''.'' else ftppath) = Inr binpath"
    and "prim_list be binpath = Resolved entries"
  shows "sync (list config be ftppath) =
           logWithState config (js ''list '' @ (if ftppath = [] then js ''.'' else ftppath))
           @ [Backend_call (Call_list binpath)]
       \<and> (if \<not> ignoreWrongFileEncoding config
              \<and> filter (\<lambda>fn. REPLACEMENT \<in> set fn \<or> QUESTION \<in> set fn)
                   (map (\<lambda>f. decode enc (encode binary (filename f))) entries) \<noteq> []
          then async (list config be ftppath) =
                 [StateBar_close,
                  SetTimeout (filter (\<lambda>fn. REPLACEMENT \<in> set fn \<or> QUESTION \<in> set fn)
                                (map (\<lambda>f. decode enc (encode binary (filename f))) entries)) 0]
             \<and> scheduled (sync (list config be ftppath) @ async (list config be ftppath)) =
                 [filter (\<lambda>fn. REPLACEMENT \<in> set fn \<or> QUESTION \<in> set fn)
                    (map (\<lambda>f. decode enc (encode binary (filename f))) entries)]
          else async (list config be ftppath) = [StateBar_close]
             \<and> scheduled (sync (list config be ftppath) @ async (list config be ftppath)) = [])"
proof -
  have "suspect = (\<lambda>fn. REPLACEMENT \<in> set fn \<or> QUESTION \<in> set fn)"
    by (simp add: suspect_def fun_eq_iff)
  with assms show ?thesis
    by (simp add: list_def op_defs list_loop_eq scheduled_def)
qed

theorem list_schedules_callback_once_witness:
  "fileNameEncoding latin1_config = Some binary
   \<and> str2bin latin1_config (if js ''/home'' = [] then js ''.'' else js ''/home'') = Inr (js ''/home'')
   \<and> prim_list (serving_backend [] [entry ''-'' ''caf?.txt'', entry ''d'' ''pub''] []) (js ''/home'')
       = Resolved [entry ''-'' ''caf?.txt'', entry ''d'' ''pub'']
   \<and> sync (list latin1_config
         (serving_backend [] [entry ''-'' ''caf?.txt'', entry ''d'' ''pub''] []) (js ''/home''))
       = [StateBar_set (js ''srv> list /home''), Logger_message (js ''srv> list /home''),
          Backend_call (Call_list (js ''/home''))]
   \<and> async (list latin1_config
         (serving_backend [] [entry ''-'' ''caf?.txt'', entry ''d'' ''pub''] []) (js ''/home''))
       = [StateBar_close, SetTimeout [js ''caf?.txt''] 0]"
proof -
  let ?be = "serving_backend [] [entry ''-'' ''caf?.txt'', entry ''d'' ''pub''] []"
  have e: "fileNameEncoding latin1_config = Some binary"
    by (simp add: latin1_config_def)
  have s: "str2bin latin1_config (if js ''/home'' = [] then js ''.'' else js ''/home'') = Inr (js ''/home'')"
    by (simp add: str2bin_recognised [OF e]) (simp add: binary_def js_def)
  have h: "prim_list ?be (js ''/home'') = Resolved [entry ''-'' ''caf?.txt'', entry ''d'' ''pub'']"
    by (simp add: serving_backend_def)
  have b: "decode binary (encode binary (js ''caf?.txt'')) = js ''caf?.txt''"
          "decode binary (encode binary (js ''pub'')) = js ''pub''"
    by (simp_all add: binary_def js_def)
  have m: "QUESTION \<in> set (js ''caf?.txt'')" "QUESTION \<notin> set (js ''pub'')"
    "REPLACEMENT \<notin> set (js ''caf?.txt'')" "REPLACEMENT \<notin> set (js ''pub'')"
    by (simp_all add: js_def QUESTION_def REPLACEMENT_def)
  have i: "\<not> ignoreWrongFileEncoding latin1_config" "name latin1_config = Some (js ''srv'')"
    by (simp_all add: latin1_config_def)
  have j: "js ''/home'' \<noteq> []" "js ''srv'' \<noteq> []"
    "js ''srv'' @ js ''> '' @ js ''list '' @ js ''/home'' = js ''srv> list /home''"
    by (simp_all add: js_def)
  show ?thesis
    using e s h list_schedules_callback_once [OF e s h]
    by (simp add: entry_def b m i j logWithState_def prefixed_def Let_def)
qed

text \<open>
  C7 as stated fails: the only entry, \<open>what?.txt\<close>, is transcoded to itself under Latin-1
  and holds no question mark that was not there before, so no entry is suspect in the
  sense of the specification; yet one invocation of the callback is scheduled.
\<close>

theorem question_mark_scheduled_counterexample:
  "\<not> ignoreWrongFileEncoding latin1_config
   \<and> bin2str latin1_config (js ''what?.txt'') = Inr (js ''what?.txt'')
   \<and> \<not> suspect_per_spec (js ''what?.txt'') (js ''what?.txt'')
   \<and> async (list latin1_config (serving_backend [] [entry ''-'' ''what?.txt''] []) (js ''/home''))
       = [StateBar_close, SetTimeout [js ''what?.txt''] 0]"
proof -
  have e: "fileNameEncoding latin1_config = Some binary"
    by (simp add: latin1_config_def)
  have b: "bin2str latin1_config (js ''what?.txt'') = Inr (js ''what?.txt'')"
    by (simp add: bin2str_recognised [OF e]) (simp add: binary_def js_def)
  have s: "str2bin latin1_config (js ''/home'') = Inr (js ''/home'')"
    by (simp add: str2bin_recognised [OF e]) (simp add: binary_def js_def)
  have m: "QUESTION \<in> set (js ''what?.txt'')" "REPLACEMENT \<notin> set (js ''what?.txt'')"
    by (simp_all add: js_def QUESTION_def REPLACEMENT_def)
  have i: "\<not> ignoreWrongFileEncoding latin1_config"
    by (simp add: latin1_config_def)
  have j: "js ''/home'' \<noteq> []"
    by (simp add: js_def)
  show ?thesis
    using i
    by (simp add: list_def op_defs s j serving_backend_def entry_def b m indexOf_found
          suspect_per_spec_def)
qed

subsection \<open>C8\<close>

text \<open>
  C8. As amended: under every ASCII-compatible file name encoding, every name of ASCII
  characters only is its own wire form and its own host form, so that
  \<open>bin2str(str2bin(n))\<close> is \<open>n\<close>.
\<close>

theorem ascii_roundtrip:
  assumes "fileNameEncoding config = Some enc"
    and "ascii_compatible enc"
    and "is_ascii n"
  shows "str2bin config n = Inr n \<and> bin2str config n = Inr n \<and> roundtrip config n = Inr n"
proof -
  from assms(2,3) have enc: "encode enc n = map ucast n" and dec: "decode enc (map ucast n) = n"
    by (simp_all add: ascii_compatible_def)
  have wire: "str2bin config n = Inr n"
    using assms(1,3) enc by (simp add: str2bin_recognised binary_ascii)
  have host: "bin2str config n = Inr n"
    using assms(1) dec by (simp add: bin2str_recognised) (simp add: binary_def)
  show ?thesis
    using wire host by (simp add: roundtrip_def)
qed

theorem ascii_roundtrip_witness:
  "fileNameEncoding latin1_config = Some binary
   \<and> ascii_compatible binary
   \<and> is_ascii (js ''readme.txt'')
   \<and> roundtrip latin1_config (js ''readme.txt'') = Inr (js ''readme.txt'')"
proof -
  have e: "fileNameEncoding latin1_config = Some binary"
    by (simp add: latin1_config_def)
  have a: "is_ascii (js ''readme.txt'')"
    by (simp add: is_ascii_def js_def)
  show ?thesis
    using e a binary_ascii_compatible ascii_roundtrip [OF e binary_ascii_compatible a] by blast
qed

text \<open>
  C8 as stated fails: with the file name encoding \<open>'hex'\<close> the ASCII name \<open>CAFE\<close> goes to
  the wire as the two bytes CA FE and comes back as \<open>cafe\<close>.
\<close>

theorem hex_roundtrip_counterexample:
  "is_ascii (js ''CAFE'')
   \<and> str2bin hex_config (js ''CAFE'') = Inr [0xCA, 0xFE]
   \<and> roundtrip hex_config (js ''CAFE'') = Inr (js ''cafe'')
   \<and> js ''cafe'' \<noteq> js ''CAFE''"
proof -
  have e: "fileNameEncoding hex_config = Some hex"
    by (simp add: hex_config_def)
  have a: "is_ascii (js ''CAFE'')"
    by (simp add: is_ascii_def js_def)
  have h: "hexval 0x43 = Some 12" "hexval 0x41 = Some 10" "hexval 0x46 = Some 15"
    "hexval 0x45 = Some 14"
    by (simp_all add: hexval_def)
  have s: "str2bin hex_config (js ''CAFE'') = Inr [0xCA, 0xFE]"
    by (simp add: str2bin_recognised [OF e]) (simp add: hex_def binary_def js_def h)
  have b: "bin2str hex_config [0xCA, 0xFE] = Inr (js ''cafe'')"
    by (simp add: bin2str_recognised [OF e])
       (simp add: hex_def binary_def hex_decode_def hexdigit_def js_def)
  show ?thesis
    using a by (simp add: roundtrip_def s b) (simp add: js_def)
qed

subsection \<open>C9\<close>

text \<open>
  C9. Listing the empty path is listing \<open>"."\<close>: the two invocations perform the same
  effects, make the same backend call with the same argument, announce and log the same
  messages, and give the same result.
\<close>

theorem list_empty_path_is_dot:
  "list config be [] = list config be (js ''.'')"
  by (simp add: list_def)

subsection \<open>C10\<close>

text \<open>
  C10. When the entry's type is not \<open>'l'\<close>, \<open>readlink\<close> throws from the call itself (it does
  not return a rejected promise) the error \<open>ftppath + ' is not symlink'\<close>, and neither
  \<open>stateBar.set\<close> nor \<open>stateBar.close\<close> is called: the invocation has no effects.
\<close>

theorem readlink_not_symlink_throws_unannounced:
  assumes "type fileinfo \<noteq> js ''l''"
  shows "result (fst (readlink config be nrm fileinfo ftppath))
           = Thrown (Error (ftppath @ js '' is not symlink''))
       \<and> announces (fst (readlink config be nrm fileinfo ftppath)) = 0
       \<and> settles (fst (readlink config be nrm fileinfo ftppath)) = 0
       \<and> sync (fst (readlink config be nrm fileinfo ftppath)) = []
       \<and> async (fst (readlink config be nrm fileinfo ftppath)) = []"
  using assms by (simp add: readlink_def announces_def settles_def)

theorem readlink_not_symlink_throws_unannounced_witness:
  "type (entry ''-'' ''notes.txt'') \<noteq> js ''l''
   \<and> result (fst (readlink latin1_config (serving_backend [] [] (js ''x'')) id
                (entry ''-'' ''notes.txt'') (js ''/notes.txt'')))
       = Thrown (Error (js ''/notes.txt is not symlink''))
   \<and> settles (fst (readlink latin1_config (serving_backend [] [] (js ''x'')) id
                (entry ''-'' ''notes.txt'') (js ''/notes.txt''))) = 0"
proof -
  have h: "type (entry ''-'' ''notes.txt'') \<noteq> js ''l''"
    by (simp add: entry_def js_def)
  show ?thesis
    using h readlink_not_symlink_throws_unannounced [OF h, of latin1_config
        "serving_backend [] [] (js ''x'')" id "js ''/notes.txt''"]
    by (simp add: js_def)
qed

end
